theory Spec2Isabelle
  imports Main "HOL-Library.AList"
begin

section \<open>Strings and values of the Python program\<close>

text \<open>
  The development embeds \<^verbatim>\<open>data_preparation/dataset_builder.py\<close> (class
  \<^verbatim>\<open>DatasetBuilder\<close>). Python strings are modelled as \<open>string\<close>. File names
  are taken to be ASCII: there the class \<^verbatim>\<open>[a-zA-Z]\<close> under \<^verbatim>\<open>re.IGNORECASE\<close>
  is the set of the 52 ASCII letters, \<^verbatim>\<open>\d\<close> is the set of the ten ASCII
  digits, and \<^verbatim>\<open>str.upper\<close> maps \<^verbatim>\<open>a\<close> to \<^verbatim>\<open>z\<close> to \<^verbatim>\<open>A\<close> to \<^verbatim>\<open>Z\<close> and leaves
  every other character as it is. (On code points beyond ASCII Python's
  classes are larger; such names are outside the model.)
\<close>

definition re_letter :: "char \<Rightarrow> bool" where
  \<comment> \<open>the class \<^verbatim>\<open>[a-zA-Z]\<close>\<close>
  "re_letter c =
     (c \<in> set ''abcdefghijklmnopqrstuvwxyz'' \<or> c \<in> set ''ABCDEFGHIJKLMNOPQRSTUVWXYZ'')"

definition re_digit :: "char \<Rightarrow> bool" where
  \<comment> \<open>the class \<^verbatim>\<open>\d\<close>\<close>
  "re_digit c = (c \<in> set ''0123456789'')"

definition upper_char :: "char \<Rightarrow> char" where
  "upper_char c =
     (case map_of (zip ''abcdefghijklmnopqrstuvwxyz'' ''ABCDEFGHIJKLMNOPQRSTUVWXYZ'') c of
        Some u \<Rightarrow> u
      | None \<Rightarrow> c)"

definition lower_char :: "char \<Rightarrow> char" where
  "lower_char c =
     (case map_of (zip ''ABCDEFGHIJKLMNOPQRSTUVWXYZ'' ''abcdefghijklmnopqrstuvwxyz'') c of
        Some l \<Rightarrow> l
      | None \<Rightarrow> c)"

definition py_upper :: "string \<Rightarrow> string" where
  \<comment> \<open>\<^verbatim>\<open>str.upper()\<close>\<close>
  "py_upper s = map upper_char s"

definition re_lit_ci :: "char \<Rightarrow> char \<Rightarrow> bool" where
  \<comment> \<open>a literal lower-case letter of the pattern, matched under \<^verbatim>\<open>re.IGNORECASE\<close>\<close>
  "re_lit_ci l c = (lower_char c = l)"

fun nat_digits :: "nat \<Rightarrow> string" where
  "nat_digits n =
     (if n < 10 then [''0123456789'' ! n]
      else nat_digits (n div 10) @ [''0123456789'' ! (n mod 10)])"

declare nat_digits.simps [simp del]

definition str_int :: "int \<Rightarrow> string" where
  \<comment> \<open>\<^verbatim>\<open>str(i)\<close>, the way an f-string formats an integer\<close>
  "str_int i = (if i < 0 then CHR ''-'' # nat_digits (nat (- i)) else nat_digits (nat i))"

definition str_opt :: "string option \<Rightarrow> string" where
  \<comment> \<open>the way an f-string formats a value that is a string or \<^verbatim>\<open>None\<close>\<close>
  "str_opt v = (case v of None \<Rightarrow> ''None'' | Some s \<Rightarrow> s)"

section \<open>The file-name pattern\<close>

text \<open>
  \<^verbatim>\<open>pattern = r"([a-zA-Z]+-\d+)-(\d)\.eaf"\<close>, applied with
  \<^verbatim>\<open>re.match(pattern, filename, re.IGNORECASE)\<close>: the match starts at the first
  character of the file name and may end before its last one. \<open>re_match_eaf\<close>
  returns the two groups and the part of the file name after the match. Each
  repetition is followed by a character outside its class, so the longest run
  is the only one that can be continued and no backtracking is needed;
  \<open>re_match_eaf_iff\<close> below states the result without reference to the scan order.
\<close>

definition re_match_eaf :: "string \<Rightarrow> (string \<times> string \<times> string) option" where
  "re_match_eaf s =
     (let ls = takeWhile re_letter s; r1 = dropWhile re_letter s in
      if ls = [] then None
      else (case r1 of
          [] \<Rightarrow> None
        | h1 # r2 \<Rightarrow>
            if h1 \<noteq> CHR ''-'' then None
            else (let ds = takeWhile re_digit r2; r3 = dropWhile re_digit r2 in
              if ds = [] then None
              else (case r3 of
                  h2 # d # dot # e # a # f # rest \<Rightarrow>
                    if h2 = CHR ''-'' \<and> re_digit d \<and> dot = CHR ''.''
                       \<and> re_lit_ci (CHR ''e'') e \<and> re_lit_ci (CHR ''a'') a
                       \<and> re_lit_ci (CHR ''f'') f
                    then Some (ls @ ''-'' @ ds, [d], rest)
                    else None
                | _ \<Rightarrow> None))))"

text \<open>
  The pattern read as a set of strings, group by group: \<open>eaf_shape g1 g2 m\<close>
  holds when \<open>m\<close> is a string of the pattern's language whose first group is
  \<open>g1\<close> and whose second group is \<open>g2\<close>.
\<close>

definition eaf_shape :: "string \<Rightarrow> string \<Rightarrow> string \<Rightarrow> bool" where
  "eaf_shape g1 g2 m =
     (\<exists>ls ds d e a f.
        ls \<noteq> [] \<and> list_all re_letter ls \<and> ds \<noteq> [] \<and> list_all re_digit ds \<and> re_digit d
        \<and> re_lit_ci (CHR ''e'') e \<and> re_lit_ci (CHR ''a'') a \<and> re_lit_ci (CHR ''f'') f
        \<and> g1 = ls @ ''-'' @ ds \<and> g2 = [d]
        \<and> m = g1 @ ''-'' @ g2 @ ''.'' @ [e, a, f])"

definition matches_prefix :: "string \<Rightarrow> bool" where
  \<comment> \<open>what \<^verbatim>\<open>re.match\<close> decides: some initial part of the name is in the language\<close>
  "matches_prefix s = (\<exists>g1 g2 m rest. eaf_shape g1 g2 m \<and> s = m @ rest)"

definition matches_anchored :: "string \<Rightarrow> bool" where
  \<comment> \<open>the pattern anchored at both ends: the whole name is in the language\<close>
  "matches_anchored s = (\<exists>g1 g2. eaf_shape g1 g2 s)"

section \<open>Errors, the file system and the console\<close>

datatype error =
    FileNotFoundError string
  | NotADirectoryError string
  | FileExistsError string
  | IsADirectoryError string
  | ParseError string
  | CodecError string
  | ValueError string

datatype 'b node = Dir | File 'b

text \<open>
  The file system maps path strings to nodes, as an association list whose
  order is the order in which a directory is listed. A path denotes a node by
  its spelling (no \<^verbatim>\<open>.\<close>, \<^verbatim>\<open>..\<close> or link resolution). A file can be
  created only in a directory that exists: its parent path (\<^verbatim>\<open>os.path.dirname\<close>)
  must be a directory of the file system, the current directory (empty
  parent) and the root always being there. \<^verbatim>\<open>os.makedirs\<close> records the
  directory it is asked for; the directories above it, which it also creates,
  are not recorded. The type \<open>'b\<close> is the type of file contents. The console
  is the list of the lines printed so far.
\<close>

type_synonym 'b fsys = "(string \<times> 'b node) list"

record 'b world =
  fs :: "'b fsys"
  stdout :: "string list"

definition print :: "string \<Rightarrow> 'b world \<Rightarrow> 'b world" where
  "print line w = w\<lparr>stdout := stdout w @ [line]\<rparr>"

definition path_join :: "string \<Rightarrow> string \<Rightarrow> string" where
  \<comment> \<open>\<^verbatim>\<open>os.path.join(a, b)\<close> of \<^verbatim>\<open>posixpath\<close>\<close>
  "path_join a b =
     (if b \<noteq> [] \<and> hd b = CHR ''/'' then b
      else if a = [] \<or> last a = CHR ''/'' then a @ b
      else a @ ''/'' @ b)"

definition rfind :: "string \<Rightarrow> char \<Rightarrow> int" where
  \<comment> \<open>\<^verbatim>\<open>s.rfind(c)\<close> for a one-character \<open>c\<close>: the highest index of \<open>c\<close>, or \<open>-1\<close>\<close>
  "rfind s c =
     (if c \<in> set s then int (length s) - 1 - int (length (takeWhile (\<lambda>x. x \<noteq> c) (rev s)))
      else - 1)"

definition splitext :: "string \<Rightarrow> string \<times> string" where
  \<comment> \<open>\<^verbatim>\<open>os.path.splitext(p)\<close>: the extension starts at the last dot of the last
      component, unless only dots precede that dot there\<close>
  "splitext p =
     (let sepIndex = rfind p (CHR ''/''); dotIndex = rfind p (CHR ''.'') in
      if dotIndex > sepIndex
         \<and> \<not> list_all (\<lambda>x. x = CHR ''.'')
               (take (nat (dotIndex - (sepIndex + 1))) (drop (nat (sepIndex + 1)) p))
      then (take (nat dotIndex) p, drop (nat dotIndex) p)
      else (p, []))"

definition path_exists :: "'b world \<Rightarrow> string \<Rightarrow> bool" where
  \<comment> \<open>\<^verbatim>\<open>os.path.exists(p)\<close>\<close>
  "path_exists w p = (map_of (fs w) p \<noteq> None)"

definition entry_name :: "string \<Rightarrow> string \<Rightarrow> string option" where
  \<comment> \<open>the name under which path \<open>p\<close> is an entry of directory \<open>d\<close>, if it is one\<close>
  "entry_name d p =
     (let pre = path_join d [] in
      if take (length pre) p = pre \<and> drop (length pre) p \<noteq> []
         \<and> CHR ''/'' \<notin> set (drop (length pre) p)
      then Some (drop (length pre) p) else None)"

definition listdir :: "string \<Rightarrow> 'b world \<Rightarrow> error + string list" where
  \<comment> \<open>\<^verbatim>\<open>os.listdir(d)\<close>\<close>
  "listdir d w =
     (if d = [] then Inl (FileNotFoundError d)
      else (case map_of (fs w) d of
          None \<Rightarrow> Inl (FileNotFoundError d)
        | Some (File c) \<Rightarrow> Inl (NotADirectoryError d)
        | Some Dir \<Rightarrow> Inr (remdups (List.map_filter (entry_name d) (map fst (fs w))))))"

definition makedirs :: "string \<Rightarrow> 'b world \<Rightarrow> error + 'b world" where
  \<comment> \<open>\<^verbatim>\<open>os.makedirs(p, exist_ok=True)\<close>\<close>
  "makedirs p w =
     (if p = [] then Inl (FileNotFoundError p)
      else (case map_of (fs w) p of
          Some Dir \<Rightarrow> Inr w
        | Some (File c) \<Rightarrow> Inl (FileExistsError p)
        | None \<Rightarrow> Inr (w\<lparr>fs := AList.update p Dir (fs w)\<rparr>)))"

definition read_file :: "string \<Rightarrow> 'b world \<Rightarrow> error + 'b" where
  \<comment> \<open>opening a file for reading and reading all of it\<close>
  "read_file p w =
     (case map_of (fs w) p of
        None \<Rightarrow> Inl (FileNotFoundError p)
      | Some Dir \<Rightarrow> Inl (IsADirectoryError p)
      | Some (File c) \<Rightarrow> Inr c)"

definition dirname :: "string \<Rightarrow> string" where
  \<comment> \<open>\<^verbatim>\<open>os.path.dirname(p)\<close> of \<^verbatim>\<open>posixpath\<close>: all up to the last separator,
      without trailing separators unless it consists of separators only\<close>
  "dirname p =
     (let head = take (nat (rfind p (CHR ''/'') + 1)) p in
      if head \<noteq> [] \<and> \<not> list_all (\<lambda>x. x = CHR ''/'') head
      then rev (dropWhile (\<lambda>x. x = CHR ''/'') (rev head))
      else head)"

definition parent_node :: "'b world \<Rightarrow> string \<Rightarrow> 'b node option" where
  \<comment> \<open>the node at the parent path of \<open>p\<close>\<close>
  "parent_node w p =
     (if list_all (\<lambda>x. x = CHR ''/'') (dirname p) then Some Dir
      else map_of (fs w) (dirname p))"

definition write_file :: "string \<Rightarrow> 'b \<Rightarrow> 'b world \<Rightarrow> error + 'b world" where
  \<comment> \<open>opening a file for writing (created or truncated) and writing all of \<open>c\<close>\<close>
  "write_file p c w =
     (case parent_node w p of
        None \<Rightarrow> Inl (FileNotFoundError p)
      | Some (File c') \<Rightarrow> Inl (NotADirectoryError p)
      | Some Dir \<Rightarrow>
          (case map_of (fs w) p of
             Some Dir \<Rightarrow> Inl (IsADirectoryError p)
           | _ \<Rightarrow> Inr (w\<lparr>fs := AList.update p (File c) (fs w)\<rparr>)))"

definition remove :: "string \<Rightarrow> 'b world \<Rightarrow> error + 'b world" where
  \<comment> \<open>\<^verbatim>\<open>os.remove(p)\<close>\<close>
  "remove p w =
     (case map_of (fs w) p of
        None \<Rightarrow> Inl (FileNotFoundError p)
      | Some Dir \<Rightarrow> Inl (IsADirectoryError p)
      | Some (File c) \<Rightarrow> Inr (w\<lparr>fs := AList.delete p (fs w)\<rparr>))"

section \<open>Records of the dataset and the builder\<close>

text \<open>The dictionary appended to \<^verbatim>\<open>data\<close>; \<open>'s\<close> is the type of a sample.\<close>

record 's segment =
  path :: string
  transcription :: string
  waveform :: "'s list option"
  sampling_rate :: int
  duration :: int
  conversation_id :: "string option"

text \<open>
  The attributes set by \<^verbatim>\<open>__init__\<close>; \<open>'t\<close> is the type of \<^verbatim>\<open>test_size\<close>.
  The constructor \<open>init\<close> takes every parameter explicitly (the defaults
  \<^verbatim>\<open>split=True\<close> and \<^verbatim>\<open>test_size=0.1\<close> of the source are left to the caller).
\<close>

record 't dataset_builder =
  eaf_dir :: string
  wav_dir :: string
  seg_dir :: string
  output_dir :: string
  test_size :: 't
  split :: bool

definition init ::
  "string \<Rightarrow> string \<Rightarrow> string \<Rightarrow> string \<Rightarrow> bool \<Rightarrow> 't \<Rightarrow> 't dataset_builder" where
  "init eaf_dir' wav_dir' seg_dir' output_dir' split' test_size' =
     \<lparr>eaf_dir = eaf_dir', wav_dir = wav_dir', seg_dir = seg_dir',
      output_dir = output_dir', test_size = test_size', split = split'\<rparr>"

text \<open>What a Python call returns, as far as \<^verbatim>\<open>build_dataset\<close> needs it.\<close>

datatype pyval = NoneV | IntV int | TupleV "pyval list"

section \<open>The libraries the program calls\<close>

text \<open>
  The functions of \<^verbatim>\<open>pympi\<close>, \<^verbatim>\<open>pydub\<close>, \<^verbatim>\<open>librosa\<close>, \<^verbatim>\<open>soundfile\<close>,
  \<^verbatim>\<open>sklearn\<close> and \<^verbatim>\<open>json\<close> are parameters of the model: \<open>'e\<close> is the type of
  an \<^verbatim>\<open>Elan.Eaf\<close> object, \<open>'a\<close> of an \<^verbatim>\<open>AudioSegment\<close>. Decoders and the
  resampler and splitter may raise; the encoders are total, so that writing a
  file fails only through the file system (a missing parent directory, a
  directory at the path).
\<close>

record ('b, 'e, 'a, 's, 't) libs =
  Eaf :: "'b \<Rightarrow> error + 'e"
  get_tier_ids_for_linguistic_type :: "'e \<Rightarrow> string \<Rightarrow> string list"
  get_annotation_data_for_tier :: "'e \<Rightarrow> string \<Rightarrow> (int \<times> int \<times> string) list"
  from_wav :: "'b \<Rightarrow> error + 'a"
  getslice :: "'a \<Rightarrow> int \<Rightarrow> int \<Rightarrow> error + 'a"
  export :: "'a \<Rightarrow> 'b"
  load :: "'b \<Rightarrow> error + 's list \<times> int"
  resample :: "'s list \<Rightarrow> int \<Rightarrow> int \<Rightarrow> error + 's list"
  sf_encode :: "'s list \<Rightarrow> int \<Rightarrow> 'b"
  train_test_split ::
    "'s segment list \<Rightarrow> 't \<Rightarrow> int \<Rightarrow> error + 's segment list \<times> 's segment list"
  json_dump :: "'s segment list \<Rightarrow> 'b"

section \<open>Identity Resolver\<close>

definition parse_root_id_and_session ::
  "string \<Rightarrow> 'b world \<Rightarrow> (string option \<times> string option) \<times> 'b world" where
  "parse_root_id_and_session filename w =
     (case re_match_eaf filename of
        Some (g1, g2, rest) \<Rightarrow> ((Some (py_upper g1), Some g2), w)
      | None \<Rightarrow>
          ((None, None),
           print (''Warning: '' @ filename @ '' root id and session not found'') w))"

section \<open>Writing a partition\<close>

definition write_json ::
  "('b, 'e, 'a, 's, 't) libs \<Rightarrow> 's segment list \<Rightarrow> string \<Rightarrow> 'b world \<Rightarrow> error + 'b world" where
  "write_json L data file_path w = write_file file_path (json_dump L data) w"

section \<open>Annotation Extractor\<close>

definition parse_eaf_file ::
  "('b, 'e, 'a, 's, 't) libs \<Rightarrow> string \<Rightarrow> 'b world \<Rightarrow> error + (int \<times> int \<times> string) list" where
  "parse_eaf_file L eaf_path w =
     (case read_file eaf_path w of
        Inl err \<Rightarrow> Inl err
      | Inr content \<Rightarrow>
          (case Eaf L content of
             Inl err \<Rightarrow> Inl err
           | Inr eaf \<Rightarrow>
               Inr (concat (map (\<lambda>tier.
                      map (\<lambda>(start_time, end_time, text). (start_time, end_time, text))
                        (get_annotation_data_for_tier L eaf tier))
                    (get_tier_ids_for_linguistic_type L eaf ''verbatim'')))))"

section \<open>Audio Slicer\<close>

definition slice_and_process_audio ::
  "('b, 'e, 'a, 's, 't) libs \<Rightarrow> string \<Rightarrow> string \<Rightarrow> int \<Rightarrow> int \<Rightarrow> 'b world
     \<Rightarrow> error + 's list option \<times> 'b world" where
  "slice_and_process_audio L wav_path seg_path start_time end_time w =
     (let target_sampling_rate = 16000 in
      (case read_file wav_path w of
         Inl err \<Rightarrow> Inl err
       | Inr wav_bytes \<Rightarrow>
      (case from_wav L wav_bytes of
         Inl err \<Rightarrow> Inl err
       | Inr audio \<Rightarrow>
      (case getslice L audio start_time end_time of
         Inl err \<Rightarrow> Inl err
       | Inr segment' \<Rightarrow>
      (case write_file seg_path (export L segment') w of
         Inl err \<Rightarrow> Inl err
       | Inr w1 \<Rightarrow>
      (case read_file seg_path w1 of
         Inl err \<Rightarrow> Inl err
       | Inr seg_bytes \<Rightarrow>
      (case load L seg_bytes of
         Inl err \<Rightarrow> Inl err
       | Inr loaded \<Rightarrow>
      (let audio_data = fst loaded; sampling_rate' = snd loaded in
       if length audio_data = 0 then
         (case remove seg_path
                 (print (''Deleting '' @ seg_path @ '' due to zero-length input signal'') w1) of
            Inl err \<Rightarrow> Inl err
          | Inr w2 \<Rightarrow> Inr (None, w2))
       else
         (case (if sampling_rate' \<noteq> target_sampling_rate
                then resample L audio_data sampling_rate' target_sampling_rate
                else Inr audio_data) of
            Inl err \<Rightarrow> Inl err
          | Inr resampled \<Rightarrow>
              (case write_file seg_path (sf_encode L resampled target_sampling_rate) w1 of
                 Inl err \<Rightarrow> Inl err
               | Inr w3 \<Rightarrow> Inr (Some resampled, w3)))))))))))"

section \<open>Dataset Assembler\<close>

text \<open>The body of the loop over the annotations of one file (lines 107 to 117).\<close>

fun process_annotations ::
  "('b, 'e, 'a, 's, 't) libs \<Rightarrow> string \<Rightarrow> string \<Rightarrow> string option
     \<Rightarrow> (int \<times> int \<times> string) list \<Rightarrow> 's segment list \<Rightarrow> 'b world
     \<Rightarrow> error + 's segment list \<times> 'b world" where
  "process_annotations L wav_path seg_folder root_id [] data w = Inr (data, w)"
| "process_annotations L wav_path seg_folder root_id ((start_time, end_time, text) # rest) data w =
     (let seg_path = path_join seg_folder (str_int start_time @ ''-'' @ str_int end_time @ ''.wav'')
      in case slice_and_process_audio L wav_path seg_path start_time end_time w of
           Inl err \<Rightarrow> Inl err
         | Inr (waveform', w') \<Rightarrow>
             process_annotations L wav_path seg_folder root_id rest
               (data @ [\<lparr>path = seg_path, transcription = text, waveform = waveform',
                         sampling_rate = 16000, duration = end_time - start_time,
                         conversation_id = root_id\<rparr>]) w')"

text \<open>One pass of the loop over the annotation files (lines 95 to 122).\<close>

definition process_file ::
  "('b, 'e, 'a, 's, 't) libs \<Rightarrow> 't dataset_builder \<Rightarrow> nat \<times> string \<Rightarrow> 's segment list
     \<Rightarrow> 'b world \<Rightarrow> error + 's segment list \<times> 'b world" where
  "process_file L self entry data w =
     (let idx = fst entry; eaf_file = snd entry;
          ids = fst (parse_root_id_and_session eaf_file w);
          w1 = snd (parse_root_id_and_session eaf_file w);
          root_id = fst ids; session = snd ids;
          wav_filename = str_opt root_id @ ''-'' @ str_opt session @ ''.wav'';
          wav_path = path_join (wav_dir self) wav_filename
      in case (if path_exists w1 wav_path then
                 (let eaf_path = path_join (eaf_dir self) eaf_file in
                  case parse_eaf_file L eaf_path w1 of
                    Inl err \<Rightarrow> Inl err
                  | Inr annotations \<Rightarrow>
                      (let seg_folder = path_join (seg_dir self) (fst (splitext eaf_file)) in
                       case makedirs seg_folder w1 of
                         Inl err \<Rightarrow> Inl err
                       | Inr w2 \<Rightarrow>
                           process_annotations L wav_path seg_folder root_id annotations data w2))
               else Inr (data,
                      print (''Warning: Audio file '' @ [CHR 0x27] @ wav_filename @ [CHR 0x27]
                             @ '' not found.'') w1)) of
           Inl err \<Rightarrow> Inl err
         | Inr (data', w3) \<Rightarrow>
             Inr (data',
                  if (idx + 1) mod 10 = 0
                  then print (str_int (int (idx + 1)) @ '' files built into dataset'') w3
                  else w3))"

fun process_files ::
  "('b, 'e, 'a, 's, 't) libs \<Rightarrow> 't dataset_builder \<Rightarrow> (nat \<times> string) list \<Rightarrow> 's segment list
     \<Rightarrow> 'b world \<Rightarrow> error + 's segment list \<times> 'b world" where
  "process_files L self [] data w = Inr (data, w)"
| "process_files L self (entry # rest) data w =
     (case process_file L self entry data w of
        Inl err \<Rightarrow> Inl err
      | Inr (data', w') \<Rightarrow> process_files L self rest data' w')"

text \<open>Lines 91 to 122: the segment directory is made and every entry of the
  annotation directory is processed, in the order of the listing.\<close>

definition collect_segments ::
  "('b, 'e, 'a, 's, 't) libs \<Rightarrow> 't dataset_builder \<Rightarrow> 'b world
     \<Rightarrow> error + 's segment list \<times> 'b world" where
  "collect_segments L self w =
     (case makedirs (seg_dir self) w of
        Inl err \<Rightarrow> Inl err
      | Inr w1 \<Rightarrow>
          (case listdir (eaf_dir self) w1 of
             Inl err \<Rightarrow> Inl err
           | Inr names \<Rightarrow> process_files L self (List.enumerate 0 names) [] w1))"

text \<open>Lines 124 to 134: the three counts are printed, an empty dataset returns
  the pair \<^verbatim>\<open>None, None\<close>, and otherwise the partitions are written and the
  function ends without a \<^verbatim>\<open>return\<close> statement.\<close>

definition finalize ::
  "('b, 'e, 'a, 's, 't) libs \<Rightarrow> 't dataset_builder \<Rightarrow> 's segment list \<Rightarrow> 'b world
     \<Rightarrow> error + pyval \<times> 'b world" where
  "finalize L self data w =
     (case listdir (wav_dir self) w of
        Inl err \<Rightarrow> Inl err
      | Inr wavs \<Rightarrow>
     (let w1 = print (''wav folder size: '' @ str_int (int (length wavs))) w in
      case listdir (eaf_dir self) w1 of
        Inl err \<Rightarrow> Inl err
      | Inr eafs \<Rightarrow>
     (let w2 = print (''eaf folder size: '' @ str_int (int (length eafs))) w1;
          w3 = print (''Dataset size: '' @ str_int (int (length data))) w2 in
      if length data = 0 then
        Inr (TupleV [NoneV, NoneV],
             print ''Error: The dataset is empty. Please check your input directories and files.'' w3)
      else
        (case train_test_split L data (test_size self) 42 of
           Inl err \<Rightarrow> Inl err
         | Inr (train_data, test_data) \<Rightarrow>
        (case write_json L train_data (path_join (output_dir self) ''train.json'') w3 of
           Inl err \<Rightarrow> Inl err
         | Inr w4 \<Rightarrow>
        (case write_json L test_data (path_join (output_dir self) ''test.json'') w4 of
           Inl err \<Rightarrow> Inl err
         | Inr w5 \<Rightarrow>
             Inr (NoneV, print (''Dataset has been written into '' @ output_dir self) w5)))))))"

definition build_dataset ::
  "('b, 'e, 'a, 's, 't) libs \<Rightarrow> 't dataset_builder \<Rightarrow> 'b world \<Rightarrow> error + pyval \<times> 'b world" where
  "build_dataset L self w =
     (case collect_segments L self w of
        Inl err \<Rightarrow> Inl err
      | Inr (data, w') \<Rightarrow> finalize L self data w')"

section \<open>A small instance of the libraries\<close>

text \<open>
  A concrete instance on which the model can be run: an annotation file is a
  list of tiers (identifier, linguistic type, annotations), a recording is a
  sample rate and a list of integer samples, and \<^verbatim>\<open>test_size\<close> is given in
  percent. Slicing counts \<open>rate div 1000\<close> samples per millisecond, resampling
  to a multiple of the rate repeats each sample, and the splitter puts the
  last \<open>M * test_size / 100\<close> records, rounded up, into the test partition and
  refuses an empty training partition.
\<close>

type_synonym toy_eaf = "(string \<times> string \<times> (int \<times> int \<times> string) list) list"

datatype toy_file =
    Annot toy_eaf
  | Wave int "int list"
  | Json "int segment list"
  | Junk

definition toy_libs :: "(toy_file, toy_eaf, int \<times> int list, int, nat) libs" where
  "toy_libs =
     \<lparr>Eaf = (\<lambda>c. case c of Annot tiers \<Rightarrow> Inr tiers
                         | _ \<Rightarrow> Inl (ParseError ''not an eaf document'')),
      get_tier_ids_for_linguistic_type =
        (\<lambda>tiers ty. map fst (filter (\<lambda>tier. fst (snd tier) = ty) tiers)),
      get_annotation_data_for_tier =
        (\<lambda>tiers tid. concat (map (\<lambda>tier. snd (snd tier)) (filter (\<lambda>tier. fst tier = tid) tiers))),
      from_wav = (\<lambda>c. case c of Wave rate xs \<Rightarrow> Inr (rate, xs)
                              | _ \<Rightarrow> Inl (CodecError ''not a wav file'')),
      getslice =
        (\<lambda>audio start_time end_time.
           Inr (fst audio,
                take (nat ((end_time - start_time) * (fst audio div 1000)))
                  (drop (nat (start_time * (fst audio div 1000))) (snd audio)))),
      export = (\<lambda>audio. Wave (fst audio) (snd audio)),
      load = (\<lambda>c. case c of Wave rate xs \<Rightarrow> Inr (xs, rate)
                          | _ \<Rightarrow> Inl (CodecError ''not a wav file'')),
      resample =
        (\<lambda>xs orig_sr target_sr.
           if 0 < orig_sr \<and> target_sr mod orig_sr = 0
           then Inr (concat (map (replicate (nat (target_sr div orig_sr))) xs))
           else Inl (ValueError ''unsupported rate'')),
      sf_encode = (\<lambda>xs rate. Wave rate xs),
      train_test_split =
        (\<lambda>data pct seed.
           (let n_test = (length data * pct + 99) div 100 in
            if length data \<le> n_test
            then Inl (ValueError ''the resulting train set will be empty'')
            else Inr (take (length data - n_test) data, drop (length data - n_test) data))),
      json_dump = Json\<rparr>"

definition toy_builder :: "nat dataset_builder" where
  "toy_builder = init ''eaf'' ''wav'' ''seg'' ''out'' True 10"

definition toy_world :: "toy_file world" where
  \<comment> \<open>one annotation file with a qualifying tier of three spans, the last of
      them empty, and its recording of 2 ms at 8000 Hz\<close>
  "toy_world =
     \<lparr>fs = [(''eaf'', Dir),
            (''eaf/SPK-001-1.eaf'',
               File (Annot [(''utt'', ''verbatim'', [(0, 1, ''hello''), (1, 2, ''world''), (2, 2, ''mute'')]),
                            (''notes'', ''comment'', [(0, 2, ''ignored'')])])),
            (''wav'', Dir),
            (''wav/SPK-001-1.wav'',
               File (Wave 8000 [1, 2, 3, 4, 5, 6, 7, 8, 9, 10, 11, 12, 13, 14, 15, 16])),
            (''out'', Dir)],
      stdout = []\<rparr>"

definition toy_world_seg :: "toy_file world" where
  \<comment> \<open>the same, with the segment directory and the folder of the annotation file made\<close>
  "toy_world_seg = toy_world\<lparr>fs := fs toy_world @ [(''seg'', Dir), (''seg/SPK-001-1'', Dir)]\<rparr>"

definition world_without_wav_dir :: "toy_file world" where
  \<comment> \<open>an annotation directory with one file; the recording directory does not exist\<close>
  "world_without_wav_dir =
     \<lparr>fs = [(''eaf'', Dir),
            (''eaf/ABC-123-4.eaf'', File (Annot [(''utt'', ''verbatim'', [(0, 1, ''hello'')])])),
            (''out'', Dir)],
      stdout = []\<rparr>"

definition world_with_none_wav :: "toy_file world" where
  \<comment> \<open>an annotation file whose name does not match the pattern, and a recording
      named \<^verbatim>\<open>None-None.wav\<close>\<close>
  "world_with_none_wav =
     \<lparr>fs = [(''eaf'', Dir),
            (''eaf/notes.eaf'', File (Annot [(''utt'', ''verbatim'', [(0, 1, ''hi'')])])),
            (''wav'', Dir),
            (''wav/None-None.wav'', File (Wave 8000 [1, 2, 3, 4, 5, 6, 7, 8])),
            (''out'', Dir)],
      stdout = []\<rparr>"





section \<open>Properties of the Identity Resolver\<close>

lemma not_letter_hyphen [simp]: "\<not> re_letter (CHR ''-'')"
  by (simp add: re_letter_def)

lemma not_digit_hyphen [simp]: "\<not> re_digit (CHR ''-'')"
  by (simp add: re_digit_def)

lemma re_match_eaf_complete:
  assumes "eaf_shape g1 g2 m"
  shows "re_match_eaf (m @ rest) = Some (g1, g2, rest)"
proof -
  from assms obtain ls ds d e a f where
    ls: "ls \<noteq> []" "list_all re_letter ls" and ds: "ds \<noteq> []" "list_all re_digit ds"
    and d: "re_digit d"
    and ext: "re_lit_ci (CHR ''e'') e" "re_lit_ci (CHR ''a'') a" "re_lit_ci (CHR ''f'') f"
    and g: "g1 = ls @ ''-'' @ ds" "g2 = [d]" and m: "m = g1 @ ''-'' @ g2 @ ''.'' @ [e, a, f]"
    unfolding eaf_shape_def by blast
  let ?r3 = "CHR ''-'' # d # CHR ''.'' # e # a # f # rest"
  have s: "m @ rest = ls @ CHR ''-'' # (ds @ ?r3)"
    by (simp add: m g)
  have t1: "takeWhile re_letter (m @ rest) = ls"
    unfolding s using ls(2) by (simp add: list_all_iff)
  have d1: "dropWhile re_letter (m @ rest) = CHR ''-'' # (ds @ ?r3)"
    unfolding s using ls(2) by (simp add: list_all_iff)
  have t2: "takeWhile re_digit (ds @ ?r3) = ds"
    using ds(2) by (simp add: list_all_iff)
  have d2: "dropWhile re_digit (ds @ ?r3) = ?r3"
    using ds(2) by (simp add: list_all_iff)
  show ?thesis
    unfolding re_match_eaf_def t1 d1 using ls(1) ds(1) d ext
    by (simp add: t2 d2 g)
qed

lemma re_match_eaf_sound:
  assumes "re_match_eaf s = Some (g1, g2, rest)"
  shows "\<exists>m. eaf_shape g1 g2 m \<and> s = m @ rest"
proof -
  define ls where "ls = takeWhile re_letter s"
  define r1 where "r1 = dropWhile re_letter s"
  have s1: "s = ls @ r1" by (simp add: ls_def r1_def)
  from assms have ne: "ls \<noteq> []"
    unfolding re_match_eaf_def ls_def by (auto simp: Let_def split: if_splits)
  from assms ne obtain r2 where r1: "r1 = CHR ''-'' # r2"
    unfolding re_match_eaf_def ls_def[symmetric] r1_def[symmetric]
    by (auto simp: Let_def split: if_splits list.splits)
  define ds where "ds = takeWhile re_digit r2"
  define r3 where "r3 = dropWhile re_digit r2"
  have s2: "r2 = ds @ r3" by (simp add: ds_def r3_def)
  from assms ne r1 have nd: "ds \<noteq> []"
    unfolding re_match_eaf_def ls_def[symmetric] r1_def[symmetric] ds_def
    by (auto simp: Let_def split: if_splits list.splits)
  from assms ne r1 nd obtain d e a f where
    r3: "r3 = CHR ''-'' # d # CHR ''.'' # e # a # f # rest"
    and d: "re_digit d"
    and ext: "re_lit_ci (CHR ''e'') e" "re_lit_ci (CHR ''a'') a" "re_lit_ci (CHR ''f'') f"
    and g: "g1 = ls @ ''-'' @ ds" "g2 = [d]"
    unfolding re_match_eaf_def ls_def[symmetric] r1_def[symmetric]
    by (simp add: Let_def ds_def[symmetric] r3_def[symmetric] split: if_splits list.splits)
  have al: "list_all re_letter ls"
    unfolding ls_def list_all_iff by (auto dest: set_takeWhileD)
  have ad: "list_all re_digit ds"
    unfolding ds_def list_all_iff by (auto dest: set_takeWhileD)
  have sh: "eaf_shape g1 g2 (g1 @ ''-'' @ g2 @ ''.'' @ [e, a, f])"
    unfolding eaf_shape_def using ne al nd ad d ext g by blast
  have "s = (g1 @ ''-'' @ g2 @ ''.'' @ [e, a, f]) @ rest"
    by (simp add: s1 r1 s2 r3 g)
  with sh show ?thesis by blast
qed

lemma re_match_eaf_iff:
  "re_match_eaf s = Some (g1, g2, rest) \<longleftrightarrow> (\<exists>m. eaf_shape g1 g2 m \<and> s = m @ rest)"
  using re_match_eaf_sound re_match_eaf_complete by blast

lemma matches_prefix_iff: "matches_prefix s \<longleftrightarrow> re_match_eaf s \<noteq> None"
proof
  assume "matches_prefix s"
  then obtain g1 g2 m rest where "eaf_shape g1 g2 m" "s = m @ rest"
    unfolding matches_prefix_def by blast
  then show "re_match_eaf s \<noteq> None" by (simp add: re_match_eaf_complete)
next
  assume "re_match_eaf s \<noteq> None"
  then obtain g1 g2 rest where "re_match_eaf s = Some (g1, g2, rest)" by auto
  then show "matches_prefix s"
    unfolding matches_prefix_def using re_match_eaf_sound by blast
qed

lemma matches_anchored_iff: "matches_anchored s \<longleftrightarrow> (\<exists>g1 g2. re_match_eaf s = Some (g1, g2, []))"
  unfolding matches_anchored_def re_match_eaf_iff by simp

lemmas re_eval = re_match_eaf_def re_letter_def re_digit_def re_lit_ci_def lower_char_def
  py_upper_def upper_char_def

lemma parse_fst:
  "fst (parse_root_id_and_session filename w) =
     (case re_match_eaf filename of
        Some (g1, g2, rest) \<Rightarrow> (Some (py_upper g1), Some g2)
      | None \<Rightarrow> (None, None))"
  by (simp add: parse_root_id_and_session_def split: option.splits)

text \<open>
  Claim C3, as stated, has the resolver return a null identity for every file
  name that the pattern anchored at both ends does not match. The name
  \<^verbatim>\<open>ABC-123-4.eafx\<close> is not matched by the anchored pattern, and the resolver
  returns \<^verbatim>\<open>("ABC-123", "4")\<close> for it.
\<close>

theorem resolver_anchor_counterexample:
  "fst (parse_root_id_and_session ''ABC-123-4.eafx'' \<lparr>fs = ([] :: unit fsys), stdout = []\<rparr>)
     = (Some ''ABC-123'', Some ''4'')
   \<and> \<not> matches_anchored ''ABC-123-4.eafx''"
proof -
  have m: "re_match_eaf ''ABC-123-4.eafx'' = Some (''ABC-123'', ''4'', ''x'')"
    by (simp add: re_eval)
  show ?thesis
    by (simp add: parse_fst matches_anchored_iff m py_upper_def upper_char_def)
qed

text \<open>
  Claim C3, amended: the resolver returns (first group upper-cased, second
  group) exactly when an initial part of the file name is a string of the
  pattern, whatever follows it, and returns \<^verbatim>\<open>(None, None)\<close> exactly when no
  initial part is; the three examples of the claim hold.
\<close>

theorem resolver_prefix_rule:
  "((fst (parse_root_id_and_session filename w) = (Some r, Some s))
      = (\<exists>g1 g2 m rest. eaf_shape g1 g2 m \<and> filename = m @ rest \<and> r = py_upper g1 \<and> s = g2))
   \<and> ((fst (parse_root_id_and_session filename w) = (None, None)) = (\<not> matches_prefix filename))
   \<and> fst (parse_root_id_and_session ''ABC-123-4.eaf'' w) = (Some ''ABC-123'', Some ''4'')
   \<and> fst (parse_root_id_and_session ''abc-123-4.EAF'' w) = (Some ''ABC-123'', Some ''4'')
   \<and> fst (parse_root_id_and_session ''not-a-match.eaf'' w) = (None, None)"
proof -
  have a: "(fst (parse_root_id_and_session filename w) = (Some r, Some s))
      = (\<exists>g1 g2 m rest. eaf_shape g1 g2 m \<and> filename = m @ rest \<and> r = py_upper g1 \<and> s = g2)"
  proof
    assume h: "fst (parse_root_id_and_session filename w) = (Some r, Some s)"
    then obtain g1 g2 rest where m: "re_match_eaf filename = Some (g1, g2, rest)"
      and r: "r = py_upper g1" "s = g2"
      by (auto simp: parse_fst split: option.splits)
    from re_match_eaf_sound[OF m] r
    show "\<exists>g1 g2 m rest. eaf_shape g1 g2 m \<and> filename = m @ rest \<and> r = py_upper g1 \<and> s = g2"
      by blast
  next
    assume "\<exists>g1 g2 m rest. eaf_shape g1 g2 m \<and> filename = m @ rest \<and> r = py_upper g1 \<and> s = g2"
    then obtain g1 g2 m rest where "eaf_shape g1 g2 m" "filename = m @ rest"
      "r = py_upper g1" "s = g2" by blast
    then show "fst (parse_root_id_and_session filename w) = (Some r, Some s)"
      by (simp add: parse_fst re_match_eaf_complete)
  qed
  have b: "(fst (parse_root_id_and_session filename w) = (None, None)) = (\<not> matches_prefix filename)"
    by (auto simp: parse_fst matches_prefix_iff split: option.splits)
  have c: "fst (parse_root_id_and_session ''ABC-123-4.eaf'' w) = (Some ''ABC-123'', Some ''4'')"
    by (simp add: parse_fst re_eval)
  have d: "fst (parse_root_id_and_session ''abc-123-4.EAF'' w) = (Some ''ABC-123'', Some ''4'')"
    by (simp add: parse_fst re_eval)
  have e: "fst (parse_root_id_and_session ''not-a-match.eaf'' w) = (None, None)"
    by (simp add: parse_fst re_eval)
  from a b c d e show ?thesis by blast
qed

theorem resolver_prefix_rule_witness:
  "matches_prefix ''SPK-001-1.eaf.bak''
   \<and> fst (parse_root_id_and_session ''SPK-001-1.eaf.bak'' \<lparr>fs = ([] :: unit fsys), stdout = []\<rparr>)
       = (Some ''SPK-001'', Some ''1'')"
proof -
  have v: "fst (parse_root_id_and_session ''SPK-001-1.eaf.bak'' \<lparr>fs = ([] :: unit fsys), stdout = []\<rparr>)
       = (Some ''SPK-001'', Some ''1'')"
    by (simp add: parse_fst re_eval)
  from resolver_prefix_rule [of "''SPK-001-1.eaf.bak''" "\<lparr>fs = ([] :: unit fsys), stdout = []\<rparr>"] v
  show ?thesis by simp
qed

section \<open>Properties of the file system\<close>

lemma fs_print [simp]: "fs (print line w) = fs w"
  by (simp add: print_def)

lemma read_file_print [simp]: "read_file p (print line w) = read_file p w"
  by (simp add: read_file_def)

lemma path_exists_print [simp]: "path_exists (print line w) p = path_exists w p"
  by (simp add: path_exists_def)

lemma write_file_Inr:
  "write_file p c w = Inr w' \<Longrightarrow> w' = w\<lparr>fs := AList.update p (File c) (fs w)\<rparr>"
  by (auto simp: write_file_def split: option.splits node.splits)

lemma read_after_write: "write_file p c w = Inr w' \<Longrightarrow> read_file p w' = Inr c"
  by (auto dest!: write_file_Inr simp: read_file_def update_conv')

lemma remove_Inr:
  "remove p w = Inr w' \<Longrightarrow> w' = w\<lparr>fs := AList.delete p (fs w)\<rparr>"
  by (auto simp: remove_def split: option.splits node.splits)

lemma not_exists_after_remove: "remove p w = Inr w' \<Longrightarrow> \<not> path_exists w' p"
  by (auto dest!: remove_Inr simp: path_exists_def delete_conv')

section \<open>Properties of the Audio Slicer\<close>

text \<open>
  Claim C5: whenever the slicer returns, it returns \<^verbatim>\<open>None\<close> exactly when the
  sample array decoded from the slice it has just written has length zero; in
  that case no file is left at the output path; otherwise it returns a list
  and a file that can be read is left at the output path (the returned
  samples, encoded at 16000 Hz).
\<close>

theorem slicer_result:
  assumes "slice_and_process_audio L wav_path seg_path start_time end_time w = Inr (r, w')"
  shows "\<exists>content audio seg data rate.
      read_file wav_path w = Inr content \<and> from_wav L content = Inr audio
    \<and> getslice L audio start_time end_time = Inr seg
    \<and> load L (export L seg) = Inr (data, rate)
    \<and> ((r = None) = (length data = 0))
    \<and> (length data = 0 \<longrightarrow> \<not> path_exists w' seg_path)
    \<and> (length data \<noteq> 0 \<longrightarrow>
         (\<exists>xs. r = Some xs \<and> read_file seg_path w' = Inr (sf_encode L xs 16000)))"
proof -
  from assms obtain content where 1: "read_file wav_path w = Inr content"
    by (auto simp: slice_and_process_audio_def split: sum.splits)
  from assms 1 obtain audio where 2: "from_wav L content = Inr audio"
    by (auto simp: slice_and_process_audio_def split: sum.splits)
  from assms 1 2 obtain seg where 3: "getslice L audio start_time end_time = Inr seg"
    by (auto simp: slice_and_process_audio_def split: sum.splits)
  from assms 1 2 3 obtain w1 where 4: "write_file seg_path (export L seg) w = Inr w1"
    by (auto simp: slice_and_process_audio_def split: sum.splits)
  have 5: "read_file seg_path w1 = Inr (export L seg)"
    by (rule read_after_write[OF 4])
  from assms 1 2 3 4 5 obtain data rate where 6: "load L (export L seg) = Inr (data, rate)"
    by (auto simp: slice_and_process_audio_def split: sum.splits)
  have rest: "(if length data = 0 then
         (case remove seg_path
                 (print (''Deleting '' @ seg_path @ '' due to zero-length input signal'') w1) of
            Inl err \<Rightarrow> Inl err
          | Inr w2 \<Rightarrow> Inr (None, w2))
       else
         (case (if rate \<noteq> 16000 then resample L data rate 16000 else Inr data) of
            Inl err \<Rightarrow> Inl err
          | Inr resampled \<Rightarrow>
              (case write_file seg_path (sf_encode L resampled 16000) w1 of
                 Inl err \<Rightarrow> Inl err
               | Inr w3 \<Rightarrow> Inr (Some resampled, w3)))) = Inr (r, w')"
    using assms 1 2 3 4 5 6 by (simp add: slice_and_process_audio_def)
  have a: "(r = None) = (length data = 0)"
    using rest by (auto split: if_splits sum.splits)
  have b: "length data = 0 \<longrightarrow> \<not> path_exists w' seg_path"
    using rest by (auto split: sum.splits dest: not_exists_after_remove)
  have c: "length data \<noteq> 0 \<longrightarrow>
         (\<exists>xs. r = Some xs \<and> read_file seg_path w' = Inr (sf_encode L xs 16000))"
    using rest by (auto split: sum.splits if_splits dest: read_after_write)
  from 1 2 3 6 a b c show ?thesis by blast
qed

lemmas fs_eval = read_file_def write_file_def parent_node_def dirname_def rfind_def
  remove_def print_def path_exists_def
  makedirs_def listdir_def entry_name_def path_join_def List.map_filter_def

lemma replicate_two: "replicate 2 x = [x, x]"
  by (simp add: numeral_2_eq_2)

lemma toy_slice_empty:
  "slice_and_process_audio toy_libs ''wav/SPK-001-1.wav'' ''seg/SPK-001-1/2-2.wav'' 2 2 toy_world_seg =
     Inr (None, toy_world_seg
            \<lparr>stdout := [''Deleting seg/SPK-001-1/2-2.wav due to zero-length input signal'']\<rparr>)"
  by (simp add: slice_and_process_audio_def toy_libs_def toy_world_seg_def toy_world_def fs_eval)

lemma toy_slice_full:
  "slice_and_process_audio toy_libs ''wav/SPK-001-1.wav'' ''seg/SPK-001-1/0-1.wav'' 0 1 toy_world_seg =
     Inr (Some [1, 1, 2, 2, 3, 3, 4, 4, 5, 5, 6, 6, 7, 7, 8, 8],
          toy_world_seg\<lparr>fs := fs toy_world_seg @
             [(''seg/SPK-001-1/0-1.wav'',
                 File (Wave 16000 [1, 1, 2, 2, 3, 3, 4, 4, 5, 5, 6, 6, 7, 7, 8, 8]))]\<rparr>)"
  by (simp add: slice_and_process_audio_def toy_libs_def toy_world_seg_def toy_world_def fs_eval
        replicate_two)

theorem slicer_result_witness:
  "(\<exists>w'. slice_and_process_audio toy_libs ''wav/SPK-001-1.wav'' ''seg/SPK-001-1/2-2.wav'' 2 2
            toy_world_seg
            = Inr (None, w') \<and> \<not> path_exists w' ''seg/SPK-001-1/2-2.wav'')
   \<and> (\<exists>w'. slice_and_process_audio toy_libs ''wav/SPK-001-1.wav'' ''seg/SPK-001-1/0-1.wav'' 0 1
            toy_world_seg
            = Inr (Some [1, 1, 2, 2, 3, 3, 4, 4, 5, 5, 6, 6, 7, 7, 8, 8], w')
          \<and> read_file ''seg/SPK-001-1/0-1.wav'' w'
            = Inr (Wave 16000 [1, 1, 2, 2, 3, 3, 4, 4, 5, 5, 6, 6, 7, 7, 8, 8]))"
proof -
  from slicer_result [OF toy_slice_empty]
  have a: "\<not> path_exists (toy_world_seg
            \<lparr>stdout := [''Deleting seg/SPK-001-1/2-2.wav due to zero-length input signal'']\<rparr>)
              ''seg/SPK-001-1/2-2.wav''"
    by auto
  from slicer_result [OF toy_slice_full]
  have b: "read_file ''seg/SPK-001-1/0-1.wav'' (toy_world_seg\<lparr>fs := fs toy_world_seg @
             [(''seg/SPK-001-1/0-1.wav'',
                 File (Wave 16000 [1, 1, 2, 2, 3, 3, 4, 4, 5, 5, 6, 6, 7, 7, 8, 8]))]\<rparr>)
         = Inr (sf_encode toy_libs [1, 1, 2, 2, 3, 3, 4, 4, 5, 5, 6, 6, 7, 7, 8, 8] 16000)"
    by auto
  from a b toy_slice_empty toy_slice_full show ?thesis
    by (simp add: toy_libs_def)
qed

section \<open>Properties of the loop over the annotations\<close>

lemma fs_parse_root_id [simp]: "fs (snd (parse_root_id_and_session f w)) = fs w"
  by (simp add: parse_root_id_and_session_def split: option.splits)

lemma read_file_fs: "fs w = fs w' \<Longrightarrow> read_file p w = read_file p w'"
  by (simp add: read_file_def)

lemma path_exists_fs: "fs w = fs w' \<Longrightarrow> path_exists w p = path_exists w' p"
  by (simp add: path_exists_def)




section \<open>Paths of the segment files\<close>








section \<open>Running the small instance\<close>

lemmas toy_eval = toy_libs_def toy_builder_def init_def
  collect_segments_def process_file_def parse_root_id_and_session_def re_eval
  parse_eaf_file_def slice_and_process_audio_def str_int_def nat_digits.simps str_opt_def
  splitext_def rfind_def fs_eval replicate_two finalize_def build_dataset_def write_json_def

lemma toy_collect:
  "collect_segments toy_libs toy_builder toy_world =
     Inr ([\<lparr>path = ''seg/SPK-001-1/0-1.wav'', transcription = ''hello'',
            waveform = Some [1, 1, 2, 2, 3, 3, 4, 4, 5, 5, 6, 6, 7, 7, 8, 8],
            sampling_rate = 16000, duration = 1, conversation_id = Some ''SPK-001''\<rparr>,
           \<lparr>path = ''seg/SPK-001-1/1-2.wav'', transcription = ''world'',
            waveform = Some [9, 9, 10, 10, 11, 11, 12, 12, 13, 13, 14, 14, 15, 15, 16, 16],
            sampling_rate = 16000, duration = 1, conversation_id = Some ''SPK-001''\<rparr>,
           \<lparr>path = ''seg/SPK-001-1/2-2.wav'', transcription = ''mute'',
            waveform = None, sampling_rate = 16000, duration = 0,
            conversation_id = Some ''SPK-001''\<rparr>],
          \<lparr>fs = fs toy_world @
             [(''seg'', Dir), (''seg/SPK-001-1'', Dir),
              (''seg/SPK-001-1/0-1.wav'',
                 File (Wave 16000 [1, 1, 2, 2, 3, 3, 4, 4, 5, 5, 6, 6, 7, 7, 8, 8])),
              (''seg/SPK-001-1/1-2.wav'',
                 File (Wave 16000 [9, 9, 10, 10, 11, 11, 12, 12, 13, 13, 14, 14, 15, 15, 16, 16]))],
           stdout = [''Deleting seg/SPK-001-1/2-2.wav due to zero-length input signal'']\<rparr>)"
  by (simp add: toy_eval toy_world_def Let_def)

section \<open>Properties of the Dataset Assembler\<close>











section \<open>Exceptions leave the build\<close>











section \<open>The result of the build\<close>

lemma process_file_split:
  "process_file L (self\<lparr>split := b\<rparr>) entry data w = process_file L self entry data w"
  by (simp add: process_file_def Let_def cong: sum.case_cong if_cong)

lemma process_files_split:
  "process_files L (self\<lparr>split := b\<rparr>) entries data w = process_files L self entries data w"
  by (induction entries arbitrary: data w) (simp_all add: process_file_split split: sum.splits)

text \<open>
  Claim C9: two builders constructed with the same directories and test size,
  one with \<^verbatim>\<open>split=True\<close> and one with \<^verbatim>\<open>split=False\<close>, behave identically from
  every state: the same records are accumulated, and the build ends with the
  same exception or the same return value, the same file system (so the same
  partition files) and the same console output.
\<close>

theorem split_flag_irrelevant:
  "collect_segments L (init eaf_dir' wav_dir' seg_dir' output_dir' True test_size') w
     = collect_segments L (init eaf_dir' wav_dir' seg_dir' output_dir' False test_size') w
   \<and> build_dataset L (init eaf_dir' wav_dir' seg_dir' output_dir' True test_size') w
     = build_dataset L (init eaf_dir' wav_dir' seg_dir' output_dir' False test_size') w"
proof -
  let ?self = "init eaf_dir' wav_dir' seg_dir' output_dir' False test_size'"
  have i: "init eaf_dir' wav_dir' seg_dir' output_dir' True test_size' = ?self\<lparr>split := True\<rparr>"
    by (simp add: init_def)
  have c: "collect_segments L (?self\<lparr>split := True\<rparr>) w = collect_segments L ?self w"
    by (simp add: collect_segments_def process_files_split split: sum.splits)
  have f: "finalize L (?self\<lparr>split := True\<rparr>) data w' = finalize L ?self data w'" for data w'
    by (simp add: finalize_def Let_def cong: sum.case_cong if_cong)
  have b: "build_dataset L (?self\<lparr>split := True\<rparr>) w = build_dataset L ?self w"
    unfolding build_dataset_def c by (simp add: f split: sum.splits)
  from c b show ?thesis
    unfolding i by (rule conjI)
qed

lemma read_file_write_other:
  "write_file q c w = Inr w' \<Longrightarrow> p \<noteq> q \<Longrightarrow> read_file p w' = read_file p w"
  by (auto dest!: write_file_Inr simp: read_file_def update_conv')

lemma partition_paths_differ:
  "path_join d ''train.json'' \<noteq> path_join d ''test.json''"
  by (simp add: path_join_def)

lemma finalize_empty:
  assumes "finalize L self [] w = Inr (ret, w')"
  shows "ret = TupleV [NoneV, NoneV] \<and> fs w' = fs w"
  using assms by (auto simp: finalize_def Let_def split: sum.splits)

lemma finalize_nonempty:
  assumes "finalize L self data w = Inr (ret, w')" and "data \<noteq> []"
  shows "ret = NoneV \<and>
     (\<exists>train_data test_data.
        train_test_split L data (test_size self) 42 = Inr (train_data, test_data)
      \<and> read_file (path_join (output_dir self) ''train.json'') w' = Inr (json_dump L train_data)
      \<and> read_file (path_join (output_dir self) ''test.json'') w' = Inr (json_dump L test_data))"
proof -
  from assms obtain train_data test_data w3 w4 w5 where
    sp: "train_test_split L data (test_size self) 42 = Inr (train_data, test_data)"
    and w4: "write_json L train_data (path_join (output_dir self) ''train.json'') w3 = Inr w4"
    and w5: "write_json L test_data (path_join (output_dir self) ''test.json'') w4 = Inr w5"
    and r: "ret = NoneV" and fin: "fs w' = fs w5"
    by (auto simp: finalize_def Let_def split: sum.splits)
  have t: "read_file (path_join (output_dir self) ''test.json'') w5 = Inr (json_dump L test_data)"
    using w5 by (auto simp: write_json_def dest: read_after_write)
  have w5': "write_file (path_join (output_dir self) ''test.json'') (json_dump L test_data) w4 = Inr w5"
    using w5 by (simp add: write_json_def)
  have tr4: "read_file (path_join (output_dir self) ''train.json'') w4 = Inr (json_dump L train_data)"
    using w4 by (auto simp: write_json_def dest: read_after_write)
  have tr: "read_file (path_join (output_dir self) ''train.json'') w5 = Inr (json_dump L train_data)"
    using read_file_write_other[OF w5' partition_paths_differ] tr4 by simp
  from sp r t tr fin show ?thesis
    using read_file_fs[of w' w5] by auto
qed

text \<open>
  Claim C1, amended: a build that completes returns the pair
  \<^verbatim>\<open>(None, None)\<close> exactly when no record was accumulated, and then it leaves
  the file system as the loop left it; when at least one record was
  accumulated it has written the two partitions given by the splitter to
  \<^verbatim>\<open>train.json\<close> and \<^verbatim>\<open>test.json\<close> and returns \<^verbatim>\<open>None\<close>, not a pair of counts.
\<close>

theorem build_return_value:
  assumes "collect_segments L self w = Inr (data, w1)"
    and "build_dataset L self w = Inr (ret, w')"
  shows "((ret = TupleV [NoneV, NoneV]) = (data = []))
    \<and> (data = [] \<longrightarrow> fs w' = fs w1)
    \<and> (data \<noteq> [] \<longrightarrow> ret = NoneV \<and>
         (\<exists>train_data test_data.
            train_test_split L data (test_size self) 42 = Inr (train_data, test_data)
          \<and> read_file (path_join (output_dir self) ''train.json'') w' = Inr (json_dump L train_data)
          \<and> read_file (path_join (output_dir self) ''test.json'') w' = Inr (json_dump L test_data)))"
proof -
  from assms have f: "finalize L self data w1 = Inr (ret, w')"
    by (simp add: build_dataset_def)
  show ?thesis
  proof (cases "data = []")
    case True
    with f finalize_empty show ?thesis by blast
  next
    case False
    from finalize_nonempty[OF f False] False show ?thesis by auto
  qed
qed

lemma toy_build:
  "\<exists>w'. build_dataset toy_libs toy_builder toy_world = Inr (NoneV, w')"
  by (simp add: build_dataset_def toy_collect) (simp add: toy_eval toy_world_def Let_def)

text \<open>
  Claim C1, as stated, has the build return the pair of the partition sizes
  whenever at least one record is accumulated. On the small instance three
  records are accumulated, two are written to the training partition and one
  to the test partition, and the build returns \<^verbatim>\<open>None\<close>.
\<close>

theorem build_return_counterexample:
  "map_sum id (length \<circ> fst) (collect_segments toy_libs toy_builder toy_world) = Inr 3
   \<and> map_sum id fst (build_dataset toy_libs toy_builder toy_world) = Inr NoneV"
proof -
  from toy_build obtain w' where "build_dataset toy_libs toy_builder toy_world = Inr (NoneV, w')"
    by blast
  then show ?thesis by (simp add: toy_collect)
qed

theorem build_return_value_witness:
  "\<exists>data w1 w'. collect_segments toy_libs toy_builder toy_world = Inr (data, w1)
     \<and> build_dataset toy_libs toy_builder toy_world = Inr (NoneV, w')
     \<and> length data = 3
     \<and> read_file ''out/train.json'' w' = Inr (Json (take 2 data))
     \<and> read_file ''out/test.json'' w' = Inr (Json (drop 2 data))"
proof -
  from toy_build obtain w' where b: "build_dataset toy_libs toy_builder toy_world = Inr (NoneV, w')"
    by blast
  define D :: "int segment list" where "D =
     [\<lparr>path = ''seg/SPK-001-1/0-1.wav'', transcription = ''hello'',
       waveform = Some [1, 1, 2, 2, 3, 3, 4, 4, 5, 5, 6, 6, 7, 7, 8, 8],
       sampling_rate = 16000, duration = 1, conversation_id = Some ''SPK-001''\<rparr>,
      \<lparr>path = ''seg/SPK-001-1/1-2.wav'', transcription = ''world'',
       waveform = Some [9, 9, 10, 10, 11, 11, 12, 12, 13, 13, 14, 14, 15, 15, 16, 16],
       sampling_rate = 16000, duration = 1, conversation_id = Some ''SPK-001''\<rparr>,
      \<lparr>path = ''seg/SPK-001-1/2-2.wav'', transcription = ''mute'',
       waveform = None, sampling_rate = 16000, duration = 0,
       conversation_id = Some ''SPK-001''\<rparr>]"
  obtain w1 where c: "collect_segments toy_libs toy_builder toy_world = Inr (D, w1)"
    unfolding D_def using toy_collect by blast
  have len: "length D = 3" and ne: "D \<noteq> []"
    by (simp_all add: D_def)
  have sp: "train_test_split toy_libs D (test_size toy_builder) 42 = Inr (take 2 D, drop 2 D)"
    using len by (simp add: toy_libs_def toy_builder_def init_def)
  from build_return_value [OF c b] ne sp
  have "read_file (path_join (output_dir toy_builder) ''train.json'') w'
          = Inr (json_dump toy_libs (take 2 D))
      \<and> read_file (path_join (output_dir toy_builder) ''test.json'') w'
          = Inr (json_dump toy_libs (drop 2 D))"
    by auto
  then have "read_file ''out/train.json'' w' = Inr (Json (take 2 D))
      \<and> read_file ''out/test.json'' w' = Inr (Json (drop 2 D))"
    by (simp add: toy_libs_def toy_builder_def init_def path_join_def)
  with b c len show ?thesis by blast
qed

text \<open>
  Claim C2 at an input where the code departs from it: the recording
  directory does not exist, every annotation file is processed and skipped,
  no record is accumulated, and the build ends with the exception of
  \<^verbatim>\<open>os.listdir(self.wav_dir)\<close> in the diagnostic of line 124 instead of
  returning \<^verbatim>\<open>(None, None)\<close>.
\<close>

theorem empty_run_raises:
  "map_sum id (length \<circ> fst) (collect_segments toy_libs toy_builder world_without_wav_dir) = Inr 0
   \<and> build_dataset toy_libs toy_builder world_without_wav_dir = Inl (FileNotFoundError ''wav'')"
  by (simp add: toy_eval world_without_wav_dir_def Let_def)

text \<open>
  A file is skipped, with the data and the file system unchanged, when the
  recording named after its identity is absent; for the null identity that
  recording is \<^verbatim>\<open>None-None.wav\<close>.
\<close>

lemma process_file_skips:
  assumes "fst (parse_root_id_and_session eaf_file w) = (root_id, session)"
    and "\<not> path_exists w (path_join (wav_dir self)
                 (str_opt root_id @ ''-'' @ str_opt session @ ''.wav''))"
  shows "\<exists>w'. process_file L self (idx, eaf_file) data w = Inr (data, w') \<and> fs w' = fs w"
proof -
  let ?w1 = "snd (parse_root_id_and_session eaf_file w)"
  have e: "\<not> path_exists ?w1 (path_join (wav_dir self)
                 (str_opt root_id @ ''-'' @ str_opt session @ ''.wav''))"
    using assms(2) path_exists_fs[of ?w1 w] by simp
  show ?thesis
    unfolding process_file_def Let_def using e assms(1) by simp
qed

text \<open>
  Claim C4 at an input where the code departs from it: the name
  \<^verbatim>\<open>notes.eaf\<close> resolves to the null identity, the recording looked for is
  \<^verbatim>\<open>None-None.wav\<close>, and as the recording directory holds a file of that name
  the annotation file is parsed and a record with a null conversation id is
  appended.
\<close>

theorem null_identity_processed:
  "fst (parse_root_id_and_session ''notes.eaf'' world_with_none_wav) = (None, None)
   \<and> map_sum id fst (collect_segments toy_libs toy_builder world_with_none_wav)
     = Inr [\<lparr>path = ''seg/notes/0-1.wav'', transcription = ''hi'',
             waveform = Some [1, 1, 2, 2, 3, 3, 4, 4, 5, 5, 6, 6, 7, 7, 8, 8],
             sampling_rate = 16000, duration = 1, conversation_id = None\<rparr>]"
  by (simp add: toy_eval world_with_none_wav_def Let_def)

section \<open>Records with a null waveform\<close>







end
